theory Spec2Isabelle
  imports Complex_Main "HOL-Library.Sublist"
begin

section \<open>Scores and severity (dashboard.py, load_data, lines 66-71)\<close>

text \<open>
  A cell of the \<open>VAE_Score\<close> column is a 64-bit float. A finite float is modelled by the
  real number it denotes (every finite float is a rational), the two infinities and NaN are
  separate values. Comparisons follow IEEE 754: every comparison with NaN is false.
  Rounding of arithmetic results is not modelled.
\<close>

datatype pyfloat = NaN | NegInf | Fin real | PosInf

fun fle :: "pyfloat \<Rightarrow> pyfloat \<Rightarrow> bool" where
  "fle NaN _ = False"
| "fle _ NaN = False"
| "fle NegInf _ = True"
| "fle _ PosInf = True"
| "fle (Fin x) (Fin y) = (x \<le> y)"
| "fle (Fin x) NegInf = False"
| "fle PosInf _ = False"

fun flt :: "pyfloat \<Rightarrow> pyfloat \<Rightarrow> bool" where
  "flt NaN _ = False"
| "flt _ NaN = False"
| "flt PosInf _ = False"
| "flt _ NegInf = False"
| "flt (Fin x) (Fin y) = (x < y)"
| "flt NegInf _ = True"
| "flt (Fin x) PosInf = True"

datatype severity = Low | Medium | High | Critical

text \<open>
  \<open>pd.cut(x, bins, labels)\<close> with its defaults \<open>right=True\<close> and
  \<open>include_lowest=False\<close>: consecutive bin edges \<open>lo, hi\<close> form the interval
  \<open>(lo, hi]\<close>, open on the left and closed on the right, and the value gets the label of
  the interval it falls in. A value in no interval (at or below the first edge, above the
  last one, or NaN) gets the missing value, here \<open>None\<close>.
\<close>

fun pd_cut :: "pyfloat list \<Rightarrow> 'a list \<Rightarrow> pyfloat \<Rightarrow> 'a option" where
  "pd_cut (lo # hi # bs) (l # ls) x =
     (if flt lo x \<and> fle x hi then Some l else pd_cut (hi # bs) ls x)"
| "pd_cut _ _ _ = None"

definition bins :: "pyfloat list" where
  "bins = [Fin 0, Fin 310, Fin 311, Fin 312, PosInf]"

definition labels :: "severity list" where
  "labels = [Low, Medium, High, Critical]"

definition classify :: "pyfloat \<Rightarrow> severity option" where
  "classify x = pd_cut bins labels x"

text \<open>
  The categories of the result of \<open>pd.cut\<close> are ordered as the labels are listed:
  Low < Medium < High < Critical. The missing value is no category and has no place in
  that order: a comparison of two results holds only when both are buckets (pandas
  compares a missing category as false).
\<close>

fun sev_code :: "severity \<Rightarrow> int" where
  "sev_code Low = 0"
| "sev_code Medium = 1"
| "sev_code High = 2"
| "sev_code Critical = 3"

definition sev_le :: "severity \<Rightarrow> severity \<Rightarrow> bool" where
  "sev_le a b = (sev_code a \<le> sev_code b)"

fun bucket_le :: "severity option \<Rightarrow> severity option \<Rightarrow> bool" where
  "bucket_le (Some a) (Some b) = sev_le a b"
| "bucket_le _ _ = False"

section \<open>The data frame (load_data, lines 49-77)\<close>

text \<open>
  A cell of the \<open>Timestamp\<close> column after \<open>pd.to_datetime\<close> is an instant, counted in
  nanoseconds since the epoch, or the missing value NaT (\<open>None\<close>), which a blank field
  gives. Every comparison with NaT is false.
\<close>

fun ts_ge :: "int option \<Rightarrow> int option \<Rightarrow> bool" where
  "ts_ge (Some t) (Some c) = (c \<le> t)"
| "ts_ge _ _ = False"

text \<open>
  A row of the frame that \<open>load_data\<close> returns. The column \<open>Severity\<close> is
  \<open>pd.cut\<close> of the column \<open>VAE_Score\<close>, computed once for the whole frame and never
  changed, so the \<open>Severity\<close> cell of a row is \<open>classify\<close> of its \<open>VAE_Score\<close>
  cell; the column \<open>Time_Ago\<close> is only displayed. Neither is stored in the record.
\<close>

record event =
  Timestamp :: "int option"
  Sample_Index :: int
  VAE_Score :: pyfloat
  GNN_Label :: int

text \<open>
  What \<open>pd.read_csv\<close> finds in the file. A field of the \<open>Timestamp\<close> column is
  blank, a text that \<open>pd.to_datetime\<close> parses (to a time without zone, which
  \<open>datetime.now()\<close> can be subtracted from), or a text that is rejected.

  A field of the \<open>VAE Score\<close> column is read as a number, \<open>ScoreNum\<close>, or left as
  text, \<open>ScoreText\<close>. Read as a number are the numerals, \<open>inf\<close> (infinity), the blank
  field and the tokens that pandas takes for a missing value, such as \<open>NULL\<close>,
  \<open>N/A\<close> and \<open>nan\<close> (all NaN), and the fields of a column that holds nothing but
  \<open>True\<close> and \<open>False\<close> (a column of booleans, which \<open>pd.cut\<close> and the comparisons
  take as 1 and 0). Any other text is left as text, and one such field makes the whole
  column a column of objects.

  The file itself may be absent (\<open>None\<close>), unreadable as a table (empty, or rejected by
  the tokenizer), or lack one of the columns \<open>Timestamp\<close> and \<open>VAE_Score\<close> that
  \<open>load_data\<close> looks up once the names are stripped and their spaces replaced.
\<close>

datatype ts_cell = TsBlank | TsParsed int | TsUnparsable

datatype score_cell = ScoreNum pyfloat | ScoreText

record raw_row =
  raw_Timestamp :: ts_cell
  raw_Sample_Index :: int
  raw_VAE_Score :: score_cell
  raw_GNN_Label :: int

datatype csv_file = Malformed | MissingColumn | Table "raw_row list"

datatype load_error = FileNotFoundError | ReadError | KeyError | DatetimeError | CutTypeError

fun to_datetime :: "ts_cell list \<Rightarrow> load_error + int option list" where
  "to_datetime [] = Inr []"
| "to_datetime (TsUnparsable # cs) = Inl DatetimeError"
| "to_datetime (TsBlank # cs) =
     (case to_datetime cs of Inl e \<Rightarrow> Inl e | Inr ts \<Rightarrow> Inr (None # ts))"
| "to_datetime (TsParsed t # cs) =
     (case to_datetime cs of Inl e \<Rightarrow> Inl e | Inr ts \<Rightarrow> Inr (Some t # ts))"

text \<open>The score column as floats, when every field of it is a number.\<close>

fun numeric_column :: "score_cell list \<Rightarrow> pyfloat list option" where
  "numeric_column [] = Some []"
| "numeric_column (ScoreText # cs) = None"
| "numeric_column (ScoreNum x # cs) =
     (case numeric_column cs of None \<Rightarrow> None | Some xs \<Rightarrow> Some (x # xs))"

text \<open>
  \<open>df.sort_values('Timestamp', ascending=False)\<close>: the rows with a timestamp in
  descending order, the rows with NaT last. pandas sorts the reversed column in ascending
  order and reverses the result. Its default sort, quicksort, is not stable, so the
  order among rows of equal timestamp is not determined by the script; the model takes
  the stable order, in which such rows keep their order in the file. Nothing proved
  below depends on the order among rows of equal timestamp.
\<close>

definition sort_values :: "event list \<Rightarrow> event list" where
  "sort_values df =
     (let non_nans = filter (\<lambda>e. Timestamp e \<noteq> None) df;
          nans = filter (\<lambda>e. Timestamp e = None) df
      in rev (sort_key (\<lambda>e. the (Timestamp e)) (rev non_nans)) @ nans)"

definition mk_event :: "raw_row \<Rightarrow> int option \<Rightarrow> pyfloat \<Rightarrow> event" where
  "mk_event r t s =
     \<lparr>Timestamp = t, Sample_Index = raw_Sample_Index r, VAE_Score = s,
      GNN_Label = raw_GNN_Label r\<rparr>"

text \<open>
  The body of the \<open>try\<close> block: each statement that can raise is a branch that returns
  the error. \<open>pd.cut\<close> raises on a column of objects.
\<close>

definition load_body :: "csv_file option \<Rightarrow> load_error + event list" where
  "load_body src =
     (case src of
        None \<Rightarrow> Inl FileNotFoundError
      | Some Malformed \<Rightarrow> Inl ReadError
      | Some MissingColumn \<Rightarrow> Inl KeyError
      | Some (Table rows) \<Rightarrow>
          (case to_datetime (map raw_Timestamp rows) of
             Inl e \<Rightarrow> Inl e
           | Inr ts \<Rightarrow>
               (case numeric_column (map raw_VAE_Score rows) of
                  None \<Rightarrow> Inl CutTypeError
                | Some xs \<Rightarrow>
                    Inr (sort_values (map (\<lambda>(r, t, s). mk_event r t s) (zip rows (zip ts xs)))))))"

text \<open>
  \<open>except Exception\<close>: whatever the body raised, the error is shown on the page
  (\<open>st.error\<close>) and the empty frame is returned.
\<close>

definition load_data :: "csv_file option \<Rightarrow> event list" where
  "load_data src = (case load_body src of Inl e \<Rightarrow> [] | Inr df \<Rightarrow> df)"

definition load_data_shown_error :: "csv_file option \<Rightarrow> load_error option" where
  "load_data_shown_error src = (case load_body src of Inl e \<Rightarrow> Some e | Inr df \<Rightarrow> None)"

text \<open>
  \<open>@st.cache_data(ttl=REFRESH_INTERVAL)\<close>: the value \<open>load_data\<close> returned is kept
  for \<open>REFRESH_INTERVAL\<close> seconds and handed out again without reading the file; after
  that the function runs again and its result replaces the entry. The cache is the only
  state that one run of the script leaves to the next.
\<close>

definition REFRESH_INTERVAL :: real where
  "REFRESH_INTERVAL = 5"

record cache_entry =
  stored_at :: real
  cached :: "event list"

definition cached_load_data ::
  "real \<Rightarrow> csv_file option \<Rightarrow> cache_entry option \<Rightarrow> event list \<times> cache_entry option" where
  "cached_load_data now src cache =
     (let fresh = (load_data src, Some \<lparr>stored_at = now, cached = load_data src\<rparr>)
      in case cache of
           None \<Rightarrow> fresh
         | Some c \<Rightarrow> if now < stored_at c + REFRESH_INTERVAL then (cached c, cache) else fresh)"

section \<open>Filters (main, lines 92-149)\<close>

text \<open>
  The values of the sidebar widgets; the label choices are "All", "Normal (0)" and
  "Anomaly (1)". The options of the severity multiselect are
  \<open>df['Severity'].unique()\<close>, so the missing value is among them when some row has no
  severity, and \<open>isin\<close> matches a missing cell against a missing value in the list.
\<close>

datatype label_choice = All_labels | Normal_0 | Anomaly_1

record filter_spec =
  cutoff :: "int option"
  min_score :: pyfloat
  max_score :: pyfloat
  severity_filter :: "severity option list"
  label_filter :: label_choice

definition apply_filters :: "event list \<Rightarrow> filter_spec \<Rightarrow> event list" where
  "apply_filters df F =
     (let filtered_df =
            filter (\<lambda>r. ts_ge (Timestamp r) (cutoff F) \<and>
                        fle (min_score F) (VAE_Score r) \<and>
                        fle (VAE_Score r) (max_score F) \<and>
                        classify (VAE_Score r) \<in> set (severity_filter F)) df
      in case label_filter F of
           Normal_0 \<Rightarrow> filter (\<lambda>r. GNN_Label r = 0) filtered_df
         | Anomaly_1 \<Rightarrow> filter (\<lambda>r. GNN_Label r = 1) filtered_df
         | All_labels \<Rightarrow> filtered_df)"

section \<open>Metrics (main, lines 151-163)\<close>

fun isnan :: "pyfloat \<Rightarrow> bool" where
  "isnan NaN = True"
| "isnan _ = False"

text \<open>
  \<open>Series.mean()\<close> skips NaN (\<open>skipna=True\<close>) and returns NaN when nothing is left;
  on the values that are left it is float64 arithmetic inside pandas and numpy: a sum
  whose additions are rounded, in an order that numpy chooses, and can overflow to
  infinity, then a rounded division by the count. That arithmetic is not code of the
  script and is a parameter here, \<open>mean64\<close>: the mean of a series that is not empty and
  holds no NaN.
\<close>

definition series_mean_with :: "(pyfloat list \<Rightarrow> pyfloat) \<Rightarrow> pyfloat list \<Rightarrow> pyfloat" where
  "series_mean_with mean64 xs =
     (let ys = filter (\<lambda>x. \<not> isnan x) xs
      in if ys = [] then NaN else mean64 ys)"

record metrics =
  total_alerts :: nat
  filtered_alerts :: nat
  avg_score :: pyfloat
  latest :: "event option"

definition summarize_with ::
  "(pyfloat list \<Rightarrow> pyfloat) \<Rightarrow> event list \<Rightarrow> event list \<Rightarrow> metrics" where
  "summarize_with mean64 df filtered_df =
     \<lparr>total_alerts = length df,
      filtered_alerts = length filtered_df,
      avg_score = (if filtered_df \<noteq> [] then series_mean_with mean64 (map VAE_Score filtered_df)
                   else Fin 0),
      latest = (if filtered_df \<noteq> [] then Some (filtered_df ! 0) else None)\<rparr>"

text \<open>
  The mean in exact arithmetic: the sum of the reals over the count, with no rounding
  and no overflow. It is the value that the float64 mean approximates; the two differ by
  the rounding errors (1e16 and 1 have the float64 mean 5e15, and 1e308 twice has the
  float64 mean infinity). \<open>series_mean\<close> and \<open>summarize\<close> are the mean and the metrics
  with this exact mean.
\<close>

fun fadd :: "pyfloat \<Rightarrow> pyfloat \<Rightarrow> pyfloat" where
  "fadd NaN _ = NaN"
| "fadd _ NaN = NaN"
| "fadd PosInf NegInf = NaN"
| "fadd NegInf PosInf = NaN"
| "fadd PosInf _ = PosInf"
| "fadd _ PosInf = PosInf"
| "fadd NegInf _ = NegInf"
| "fadd _ NegInf = NegInf"
| "fadd (Fin x) (Fin y) = Fin (x + y)"

text \<open>Division of a float by a positive count.\<close>

fun fdiv_count :: "pyfloat \<Rightarrow> nat \<Rightarrow> pyfloat" where
  "fdiv_count (Fin x) n = Fin (x / real n)"
| "fdiv_count x n = x"

definition series_sum :: "pyfloat list \<Rightarrow> pyfloat" where
  "series_sum xs = foldl fadd (Fin 0) xs"

definition exact_mean :: "pyfloat list \<Rightarrow> pyfloat" where
  "exact_mean ys = fdiv_count (series_sum ys) (length ys)"

definition series_mean :: "pyfloat list \<Rightarrow> pyfloat" where
  "series_mean xs = series_mean_with exact_mean xs"

definition summarize :: "event list \<Rightarrow> event list \<Rightarrow> metrics" where
  "summarize df filtered_df = summarize_with exact_mean df filtered_df"

section \<open>One run of the script (main, lines 84-163)\<close>

text \<open>
  A run loads the frame through the cache. On an empty frame it shows the warning
  "No data available", sleeps and reruns (\<open>st.rerun()\<close> ends the run there); otherwise
  it shows the metrics and the filtered rows. The arguments are the clock, the file as
  \<open>initialize_sample_data\<close> left it, the widget values and the cache. The metrics of
  the page are the ones with the exact mean.
\<close>

datatype page = NoData | Dashboard metrics "event list"

definition main ::
  "real \<Rightarrow> csv_file option \<Rightarrow> filter_spec \<Rightarrow> cache_entry option \<Rightarrow> page \<times> cache_entry option" where
  "main now src F cache =
     (let (df, cache') = cached_load_data now src cache
      in if df = [] then (NoData, cache')
         else let filtered_df = apply_filters df F
              in (Dashboard (summarize df filtered_df) filtered_df, cache'))"

section \<open>The specification's vocabulary\<close>

text \<open>
  The filter as the specification words it: an event is kept when its timestamp is not
  before the cutoff, its score lies in the inclusive range, its severity is in the
  severity set and the label predicate holds.
\<close>

fun label_ok :: "label_choice \<Rightarrow> int \<Rightarrow> bool" where
  "label_ok All_labels l = True"
| "label_ok Normal_0 l = (l = 0)"
| "label_ok Anomaly_1 l = (l = 1)"

definition matches :: "filter_spec \<Rightarrow> event \<Rightarrow> bool" where
  "matches F e =
     (ts_ge (Timestamp e) (cutoff F) \<and>
      fle (min_score F) (VAE_Score e) \<and> fle (VAE_Score e) (max_score F) \<and>
      classify (VAE_Score e) \<in> set (severity_filter F) \<and>
      label_ok (label_filter F) (GNN_Label e))"

text \<open>
  A filter is at least as wide as another: a cutoff that is not later, a score range
  that contains the other, a severity set that contains the other, and a label predicate
  that is the same or is "All".
\<close>

definition wider :: "filter_spec \<Rightarrow> filter_spec \<Rightarrow> bool" where
  "wider F1 F2 =
     (ts_ge (cutoff F1) (cutoff F2) \<and>
      fle (min_score F2) (min_score F1) \<and> fle (max_score F1) (max_score F2) \<and>
      set (severity_filter F1) \<subseteq> set (severity_filter F2) \<and>
      (label_filter F2 = All_labels \<or> label_filter F2 = label_filter F1))"

text \<open>A float lies within a tolerance of a real number (false for NaN and the infinities).\<close>

fun close_to :: "pyfloat \<Rightarrow> real \<Rightarrow> real \<Rightarrow> bool" where
  "close_to (Fin m) c tol = (abs (m - c) \<le> tol)"
| "close_to _ c tol = False"

text \<open>The end-to-end scenario of the specification.\<close>

definition scenario_scores :: "real list" where
  "scenario_scores = [310.58, 310.65, 310.76, 310.92, 311.13, 311.36, 311.66]"

definition scenario_filter :: filter_spec where
  "scenario_filter =
     \<lparr>cutoff = Some 0, min_score = Fin 310, max_score = Fin 312,
      severity_filter = [Some Low, Some Medium, Some High, Some Critical],
      label_filter = Anomaly_1\<rparr>"

definition scenario_events :: "event list" where
  "scenario_events =
     map (\<lambda>(i, s). \<lparr>Timestamp = Some (6 - i), Sample_Index = i, VAE_Score = Fin s, GNN_Label = 1\<rparr>)
       (zip [0, 1, 2, 3, 4, 5, 6] scenario_scores)"

text \<open>
  The cache entry has run out (or there is none), so a call of the cached \<open>load_data\<close>
  reads the file.
\<close>

definition expired :: "real \<Rightarrow> cache_entry option \<Rightarrow> bool" where
  "expired now cache =
     (case cache of None \<Rightarrow> True | Some c \<Rightarrow> \<not> now < stored_at c + REFRESH_INTERVAL)"

text \<open>
  A row of \<open>SAMPLE_DATA\<close> (line 27: \<open>2025-04-09 16:29:57.548820,0,310.5807800292969,1\<close>),
  and the same row with a score field that pandas leaves as text, such as \<open>abc\<close>.
\<close>

definition sample_row :: raw_row where
  "sample_row =
     \<lparr>raw_Timestamp = TsParsed 1744216197548820000, raw_Sample_Index = 0,
      raw_VAE_Score = ScoreNum (Fin 310.5807800292969), raw_GNN_Label = 1\<rparr>"

definition bad_score_row :: raw_row where
  "bad_score_row = sample_row\<lparr>raw_VAE_Score := ScoreText\<rparr>"

text \<open>The row with the score field \<open>NULL\<close>, which pandas reads as a missing value.\<close>

definition null_score_row :: raw_row where
  "null_score_row = sample_row\<lparr>raw_VAE_Score := ScoreNum NaN\<rparr>"

text \<open>
  A frame with one event in each of the four buckets and one event, of score -5, that has
  none; and the widget values after the score slider is dragged to the whole range of the
  frame, with the severity selection either the four levels or all the options that the
  frame offers, the missing value among them.
\<close>

definition low_score_events :: "event list" where
  "low_score_events =
     [\<lparr>Timestamp = Some 4, Sample_Index = 4, VAE_Score = Fin 312.5, GNN_Label = 1\<rparr>,
      \<lparr>Timestamp = Some 3, Sample_Index = 3, VAE_Score = Fin 311.5, GNN_Label = 1\<rparr>,
      \<lparr>Timestamp = Some 2, Sample_Index = 2, VAE_Score = Fin 310.5, GNN_Label = 1\<rparr>,
      \<lparr>Timestamp = Some 1, Sample_Index = 1, VAE_Score = Fin 300, GNN_Label = 1\<rparr>,
      \<lparr>Timestamp = Some 0, Sample_Index = 0, VAE_Score = Fin (- 5), GNN_Label = 1\<rparr>]"

definition whole_range_filter :: "severity option list \<Rightarrow> filter_spec" where
  "whole_range_filter sel =
     \<lparr>cutoff = Some 0, min_score = Fin (- 5), max_score = Fin 312.5,
      severity_filter = sel, label_filter = All_labels\<rparr>"

section \<open>Properties of the classification\<close>

lemma classify_Fin:
  "classify (Fin s) =
     (if 0 < s \<and> s \<le> 310 then Some Low
      else if 310 < s \<and> s \<le> 311 then Some Medium
      else if 311 < s \<and> s \<le> 312 then Some High
      else if 312 < s then Some Critical
      else None)"
  by (simp add: classify_def bins_def labels_def)

lemma classify_PosInf: "classify PosInf = Some Critical"
  by (simp add: classify_def bins_def labels_def)

lemma classify_NegInf: "classify NegInf = None"
  by (simp add: classify_def bins_def labels_def)

lemma classify_NaN: "classify NaN = None"
  by (simp add: classify_def bins_def labels_def)

lemma classify_None_iff: "(classify x = None) = (isnan x \<or> fle x (Fin 0))"
  by (cases x) (simp_all add: classify_Fin classify_PosInf classify_NegInf classify_NaN)

text \<open>
  C1 (as amended). The bins are closed on the right, not on the left: a finite score
  \<open>s\<close> is Low for \<open>0 < s \<le> 310\<close>, Medium for \<open>310 < s \<le> 311\<close>, High for
  \<open>311 < s \<le> 312\<close>, Critical for \<open>312 < s\<close>, and has no bucket for \<open>s \<le> 0\<close>. A
  boundary value belongs to the lower bucket: 310.0 and 309.999 are Low, 312.0 is High.
\<close>

theorem classify_bins:
  "classify (Fin s) =
     (if 0 < s \<and> s \<le> 310 then Some Low
      else if 310 < s \<and> s \<le> 311 then Some Medium
      else if 311 < s \<and> s \<le> 312 then Some High
      else if 312 < s then Some Critical
      else None) \<and>
   classify (Fin 310) = Some Low \<and> classify (Fin 309.999) = Some Low \<and>
   classify (Fin 312) = Some High"
  by (simp add: classify_Fin)

text \<open>
  C1 as stated fails at the boundaries: 310.0 is not Medium and 312.0 is not Critical.
\<close>

theorem classify_boundary_counterexample:
  "classify (Fin 310) \<noteq> Some Medium \<and> classify (Fin 312) \<noteq> Some Critical"
  by (simp add: classify_Fin)

text \<open>
  C2 (as amended). \<open>classify\<close> is a total function into an optional severity: it
  returns a bucket exactly for the scores above 0, among them plus infinity, which is
  Critical; for NaN and for every score at or below 0 it returns the missing value.
\<close>

theorem classify_defined_iff:
  "(classify x = None) = (isnan x \<or> fle x (Fin 0)) \<and>
   (classify x \<noteq> None) = flt (Fin 0) x \<and>
   classify PosInf = Some Critical"
  by (cases x) (simp_all add: classify_Fin classify_PosInf classify_NegInf classify_NaN)

text \<open>C2 as stated fails at the score 0 and at a negative score: no severity comes back.\<close>

theorem classify_total_counterexample:
  "classify (Fin 0) = None \<and> classify (Fin (- 1)) = None"
  by (simp add: classify_Fin)

text \<open>
  C8 (as amended). \<open>classify\<close> is a function of the score alone, and it is monotone
  on the scores that have a bucket: for all scores \<open>s1\<close> and \<open>s2\<close> with
  \<open>0 < s1 < s2\<close>, both have a bucket and the bucket of \<open>s1\<close> is at most the bucket
  of \<open>s2\<close> in Low < Medium < High < Critical.
\<close>

theorem classify_monotone:
  "flt (Fin 0) s1 \<Longrightarrow> flt s1 s2 \<Longrightarrow> bucket_le (classify s1) (classify s2)"
  by (cases s1; cases s2)
    (auto simp: classify_Fin classify_PosInf classify_NegInf classify_NaN sev_le_def
      split: if_splits)

theorem classify_monotone_witness:
  "flt (Fin 0) (Fin 310.5) \<and> flt (Fin 310.5) (Fin 311.5) \<and>
   classify (Fin 310.5) = Some Medium \<and> classify (Fin 311.5) = Some High \<and>
   bucket_le (classify (Fin 310.5)) (classify (Fin 311.5))"
  using classify_monotone [of "Fin 310.5" "Fin 311.5"]
  by (simp add: classify_Fin sev_le_def)

text \<open>
  C8 as stated fails where the smaller score has no bucket: -1 < 5, but the
  classification of -1 is the missing value, which is not at most Low in the order of the
  buckets.
\<close>

theorem classify_monotone_counterexample:
  "flt (Fin (- 1)) (Fin 5) \<and> classify (Fin (- 1)) = None \<and> classify (Fin 5) = Some Low \<and>
   \<not> bucket_le (classify (Fin (- 1))) (classify (Fin 5))"
  by (simp add: classify_Fin)

section \<open>Properties of the filter\<close>

lemma apply_filters_matches: "apply_filters S F = filter (matches F) S"
  by (cases "label_filter F") (auto simp: apply_filters_def matches_def Let_def intro: filter_cong)

lemma fle_trans: "fle a b \<Longrightarrow> fle b c \<Longrightarrow> fle a c"
  by (cases a; cases b; cases c) auto

lemma ts_ge_trans: "ts_ge a b \<Longrightarrow> ts_ge b c \<Longrightarrow> ts_ge a c"
  by (cases a; cases b; cases c) auto

lemma matches_wider: "wider F1 F2 \<Longrightarrow> matches F1 e \<Longrightarrow> matches F2 e"
  unfolding wider_def matches_def
  by (auto intro: fle_trans ts_ge_trans)

lemma filter_length_mono:
  "(\<And>x. P x \<Longrightarrow> Q x) \<Longrightarrow> length (filter P xs) \<le> length (filter Q xs)"
  by (induction xs) auto

lemma subseq_filter_mono:
  "(\<And>x. P x \<Longrightarrow> Q x) \<Longrightarrow> subseq (filter P xs) (filter Q xs)"
  by (induction xs) auto

text \<open>
  C6. The filtered frame holds exactly the rows of the frame that satisfy all four
  predicates together, in the order of the frame: the timestamp is at or after the cutoff
  (a timestamp equal to the cutoff is kept, an earlier one is dropped), the score lies
  between the two bounds, both included, the severity of the score is in the severity
  set, and the label predicate holds. The result is a sub-sequence of the frame.
\<close>

theorem apply_filters_conjunction:
  "apply_filters S F = filter (matches F) S \<and>
   subseq (apply_filters S F) S \<and>
   ts_ge (Some t) (Some c) = (c \<le> t)"
  by (simp add: apply_filters_matches)

text \<open>
  C7. Under a filter that is at least as wide (a cutoff not later, a score range and a
  severity set that contain the other ones, a label predicate that is the same or All),
  every row that matched still matches: the narrower result is a sub-sequence of the
  wider one, and the filtered count does not decrease.
\<close>

theorem wider_filter_keeps_more:
  "wider F1 F2 \<Longrightarrow>
     length (apply_filters S F1) \<le> length (apply_filters S F2) \<and>
     subseq (apply_filters S F1) (apply_filters S F2)"
  by (simp add: apply_filters_matches filter_length_mono subseq_filter_mono matches_wider)

theorem wider_filter_keeps_more_witness:
  "wider (scenario_filter\<lparr>min_score := Fin 310.7, max_score := Fin 311.2\<rparr>) scenario_filter \<and>
   length (apply_filters scenario_events
      (scenario_filter\<lparr>min_score := Fin 310.7, max_score := Fin 311.2\<rparr>)) = 3 \<and>
   length (apply_filters scenario_events scenario_filter) = 7 \<and>
   length (apply_filters scenario_events
      (scenario_filter\<lparr>min_score := Fin 310.7, max_score := Fin 311.2\<rparr>))
     \<le> length (apply_filters scenario_events scenario_filter)"
  using wider_filter_keeps_more
    [of "scenario_filter\<lparr>min_score := Fin 310.7, max_score := Fin 311.2\<rparr>" scenario_filter
      scenario_events]
  by (simp add: wider_def scenario_filter_def scenario_events_def scenario_scores_def
      apply_filters_def classify_Fin)

lemma filtered_not_nan: "e \<in> set (apply_filters S F) \<Longrightarrow> \<not> isnan (VAE_Score e)"
  by (cases "VAE_Score e") (auto simp: apply_filters_matches matches_def)

text \<open>
  C9 (as amended). An event whose score is NaN, or less than or equal to 0, has no
  severity bucket. It is in no filtered frame whose severity selection holds severity
  levels only, even all four of them; an event with a NaN score is in no filtered frame
  at all, since both score comparisons are false for it.
\<close>

theorem missing_severity_excluded:
  "isnan (VAE_Score e) \<or> fle (VAE_Score e) (Fin 0) \<Longrightarrow>
   classify (VAE_Score e) = None \<and>
   (None \<notin> set (severity_filter F) \<longrightarrow> e \<notin> set (apply_filters S F)) \<and>
   (isnan (VAE_Score e) \<longrightarrow> e \<notin> set (apply_filters S F))"
proof -
  assume a: "isnan (VAE_Score e) \<or> fle (VAE_Score e) (Fin 0)"
  then have n: "classify (VAE_Score e) = None"
    by (simp add: classify_None_iff)
  have "None \<notin> set (severity_filter F) \<Longrightarrow> e \<notin> set (apply_filters S F)"
    using n by (auto simp: apply_filters_matches matches_def)
  then show ?thesis
    using n filtered_not_nan [of e S F] by blast
qed

theorem missing_severity_excluded_witness:
  "fle (VAE_Score (low_score_events ! 4)) (Fin 0) \<and>
   classify (VAE_Score (low_score_events ! 4)) = None \<and>
   None \<notin> set (severity_filter
     (whole_range_filter [Some Low, Some Medium, Some High, Some Critical])) \<and>
   low_score_events ! 4 \<in> set low_score_events \<and>
   low_score_events ! 4 \<notin> set (apply_filters low_score_events
     (whole_range_filter [Some Low, Some Medium, Some High, Some Critical]))"
proof -
  have h: "fle (VAE_Score (low_score_events ! 4)) (Fin 0)"
    by (simp add: low_score_events_def)
  have s: "None \<notin> set (severity_filter
      (whole_range_filter [Some Low, Some Medium, Some High, Some Critical]))"
    by (simp add: whole_range_filter_def)
  have m: "low_score_events ! 4 \<in> set low_score_events"
    by (simp add: low_score_events_def)
  show ?thesis
    using missing_severity_excluded [of "low_score_events ! 4"
        "whole_range_filter [Some Low, Some Medium, Some High, Some Critical]" low_score_events]
      h s m
    by blast
qed

text \<open>
  C9 as stated fails: the options of the severity multiselect are the values of the
  \<open>Severity\<close> column, the missing value among them, and with the missing value
  selected next to the four levels the event of score -5 passes the membership test and
  is in the filtered frame.
\<close>

theorem missing_severity_selected_counterexample:
  "fle (VAE_Score (low_score_events ! 4)) (Fin 0) \<and>
   classify (VAE_Score (low_score_events ! 4)) = None \<and>
   apply_filters low_score_events
     (whole_range_filter [Some Critical, Some High, Some Medium, Some Low, None])
   = low_score_events"
  by (simp add: apply_filters_def whole_range_filter_def low_score_events_def classify_Fin)

section \<open>Properties of the metrics\<close>

lemma foldl_fadd_Fin: "foldl fadd (Fin a) (map Fin rs) = Fin (a + sum_list rs)"
  by (induction rs arbitrary: a) (simp_all add: add.assoc)


lemma series_mean_exact:
  "series_mean xs =
     (let ys = filter (\<lambda>x. \<not> isnan x) xs
      in if ys = [] then NaN else fdiv_count (series_sum ys) (length ys))"
  by (simp add: series_mean_def series_mean_with_def exact_mean_def Let_def)

lemma summarize_exact:
  "summarize df filtered_df =
     \<lparr>total_alerts = length df,
      filtered_alerts = length filtered_df,
      avg_score = (if filtered_df \<noteq> [] then series_mean (map VAE_Score filtered_df) else Fin 0),
      latest = (if filtered_df \<noteq> [] then Some (filtered_df ! 0) else None)\<rparr>"
  by (simp add: summarize_def summarize_with_def series_mean_def)

lemma series_mean_no_nan:
  "\<forall>x\<in>set xs. \<not> isnan x \<Longrightarrow> xs \<noteq> [] \<Longrightarrow> series_mean xs = fdiv_count (series_sum xs) (length xs)"
  by (simp add: series_mean_exact Let_def filter_id_conv)

lemma series_mean_Fin:
  "rs \<noteq> [] \<Longrightarrow> series_mean (map Fin rs) = Fin (sum_list rs / real (length rs))"
  by (simp add: series_mean_no_nan series_sum_def foldl_fadd_Fin)


lemma scenario_all_match: "apply_filters scenario_events scenario_filter = scenario_events"
  by (simp add: apply_filters_def scenario_filter_def scenario_events_def scenario_scores_def
      classify_Fin)


section \<open>The end-to-end scenario\<close>

lemma scenario_event_matches:
  assumes "VAE_Score e \<in> set (map Fin scenario_scores)" "GNN_Label e = 1"
    "Timestamp e = Some t" "0 \<le> t"
  shows "matches scenario_filter e"
  using assms
  by (auto simp: matches_def scenario_filter_def scenario_scores_def classify_Fin)

text \<open>
  C4 (as amended). For seven events with the scores 310.58, 310.65, 310.76, 310.92,
  311.13, 311.36, 311.66, all labelled anomalous and none before the epoch, the filter
  with the score range 310 to 312, all four severity levels, the label choice Anomaly
  and the cutoff at the epoch returns all seven events; the filtered count is 7 and the
  mean score is within 0.01 of 311.01.
\<close>

theorem scenario_end_to_end:
  assumes sc: "map VAE_Score es = map Fin scenario_scores"
    and ev: "\<forall>e\<in>set es. GNN_Label e = 1 \<and> (\<exists>t\<ge>0. Timestamp e = Some t)"
  shows "apply_filters es scenario_filter = es \<and>
     length (apply_filters es scenario_filter) = 7 \<and>
     filtered_alerts (summarize es (apply_filters es scenario_filter)) = 7 \<and>
     close_to (avg_score (summarize es (apply_filters es scenario_filter))) 311.01 0.01"
proof -
  have len: "length es = 7"
    using arg_cong [OF sc, of length] by (simp add: scenario_scores_def)
  have "matches scenario_filter e" if "e \<in> set es" for e
  proof -
    have "VAE_Score e \<in> set (map VAE_Score es)" using that by simp
    then have "VAE_Score e \<in> set (map Fin scenario_scores)" by (simp only: sc)
    then show ?thesis
      using ev that scenario_event_matches by blast
  qed
  then have all: "apply_filters es scenario_filter = es"
    by (simp add: apply_filters_matches filter_id_conv)
  have ne: "es \<noteq> []" using len by auto
  have "series_mean (map VAE_Score es) = Fin (sum_list scenario_scores / real (length scenario_scores))"
    unfolding sc by (rule series_mean_Fin) (simp add: scenario_scores_def)
  then have "close_to (series_mean (map VAE_Score es)) 311.01 0.01"
    by (simp add: scenario_scores_def)
  then show ?thesis
    using all len ne by (simp add: summarize_exact)
qed

theorem scenario_end_to_end_witness:
  "map VAE_Score scenario_events = map Fin scenario_scores \<and>
   apply_filters scenario_events scenario_filter = scenario_events \<and>
   length (apply_filters scenario_events scenario_filter) = 7 \<and>
   filtered_alerts (summarize scenario_events (apply_filters scenario_events scenario_filter)) = 7 \<and>
   close_to (avg_score (summarize scenario_events
        (apply_filters scenario_events scenario_filter))) 311.01 0.01"
proof -
  have sc: "map VAE_Score scenario_events = map Fin scenario_scores"
    by (simp add: scenario_events_def scenario_scores_def)
  have ev: "\<forall>e\<in>set scenario_events. GNN_Label e = 1 \<and> (\<exists>t\<ge>0. Timestamp e = Some t)"
    by (simp add: scenario_events_def scenario_scores_def)
  show ?thesis
    by (rule conjI [OF sc scenario_end_to_end [OF sc ev]])
qed

text \<open>
  C4 as stated fails in its last part: the mean of the seven scores is 2177.06 / 7,
  about 311.0086, which is further than 0.01 from 310.99.
\<close>

theorem scenario_mean_counterexample:
  "\<not> close_to (avg_score (summarize scenario_events
        (apply_filters scenario_events scenario_filter))) 310.99 0.01"
proof -
  have "series_mean (map VAE_Score scenario_events) =
      Fin (sum_list scenario_scores / real (length scenario_scores))"
    using series_mean_Fin [of scenario_scores]
    by (simp add: scenario_events_def scenario_scores_def)
  then have "\<not> close_to (series_mean (map VAE_Score scenario_events)) 310.99 0.01"
    by (simp add: scenario_scores_def)
  moreover have "scenario_events \<noteq> []"
    by (simp add: scenario_events_def scenario_scores_def)
  ultimately show ?thesis
    by (simp add: scenario_all_match summarize_exact)
qed

section \<open>Properties of loading\<close>

lemma to_datetime_Inl: "TsUnparsable \<in> set cs \<Longrightarrow> to_datetime cs = Inl DatetimeError"
  by (induction cs rule: to_datetime.induct) auto

lemma to_datetime_error: "to_datetime cs = Inl e \<Longrightarrow> e = DatetimeError"
  by (induction cs rule: to_datetime.induct) (auto split: sum.splits)

lemma numeric_column_None: "ScoreText \<in> set cs \<Longrightarrow> numeric_column cs = None"
  by (induction cs rule: numeric_column.induct) auto

lemma load_body_bad_score:
  "ScoreText \<in> set (map raw_VAE_Score rows) \<Longrightarrow>
     load_body (Some (Table rows)) = Inl DatetimeError \<or>
     load_body (Some (Table rows)) = Inl CutTypeError"
  by (auto simp: load_body_def numeric_column_None split: sum.splits dest: to_datetime_error)

lemma load_body_bad_timestamp:
  "TsUnparsable \<in> set (map raw_Timestamp rows) \<Longrightarrow>
     load_body (Some (Table rows)) = Inl DatetimeError"
  by (simp add: load_body_def to_datetime_Inl)

lemma to_datetime_ok:
  "TsUnparsable \<notin> set cs \<Longrightarrow> \<exists>ts. to_datetime cs = Inr ts \<and> length ts = length cs"
  by (induction cs rule: to_datetime.induct) auto

lemma numeric_column_ok:
  "ScoreText \<notin> set cs \<Longrightarrow> \<exists>xs. numeric_column cs = Some xs \<and> length xs = length cs"
  by (induction cs rule: numeric_column.induct) auto

lemma length_sort_values: "length (sort_values df) = length df"
proof -
  have "length (filter (\<lambda>e. Timestamp e \<noteq> None) df) + length (filter (\<lambda>e. Timestamp e = None) df)
      = length df"
    using sum_length_filter_compl [of "\<lambda>e. Timestamp e \<noteq> None" df] by simp
  then show ?thesis
    by (simp add: sort_values_def Let_def)
qed

lemma load_body_ok:
  assumes "ScoreText \<notin> set (map raw_VAE_Score rows)" "TsUnparsable \<notin> set (map raw_Timestamp rows)"
  shows "\<exists>df. load_body (Some (Table rows)) = Inr df \<and> length df = length rows"
proof -
  obtain ts where ts: "to_datetime (map raw_Timestamp rows) = Inr ts" "length ts = length rows"
    using to_datetime_ok [OF assms(2)] by auto
  obtain xs where xs: "numeric_column (map raw_VAE_Score rows) = Some xs" "length xs = length rows"
    using numeric_column_ok [OF assms(1)] by auto
  show ?thesis
    using ts xs by (simp add: load_body_def length_sort_values)
qed

lemma main_expired:
  "expired now cache \<Longrightarrow> load_data src = [] \<Longrightarrow>
     main now src F cache = (NoData, Some \<lparr>stored_at = now, cached = []\<rparr>)"
  by (auto simp: main_def cached_load_data_def expired_def Let_def split: option.splits)

lemma sample_loads:
  "load_data (Some (Table [sample_row])) =
     [\<lparr>Timestamp = Some 1744216197548820000, Sample_Index = 0,
       VAE_Score = Fin 310.5807800292969, GNN_Label = 1\<rparr>]"
  by (simp add: load_data_def load_body_def sample_row_def mk_event_def sort_values_def)

text \<open>
  C10. \<open>load_data\<close> returns a frame for every file: whatever the body of the
  \<open>try\<close> block raises (a missing or unreadable file, a missing column, a timestamp
  that does not parse, a score field left as text) is caught, the error goes to the page,
  and the empty frame is returned. Two failures of different kinds return the same
  value, so the caller sees an empty frame and not the kind of the error.
\<close>

theorem load_data_catches_all:
  "(load_body src = Inl e \<longrightarrow> load_data src = [] \<and> load_data_shown_error src = Some e) \<and>
   load_data None = [] \<and> load_data (Some Malformed) = [] \<and> load_data (Some MissingColumn) = [] \<and>
   (TsUnparsable \<in> set (map raw_Timestamp rows) \<or> ScoreText \<in> set (map raw_VAE_Score rows) \<longrightarrow>
      load_data (Some (Table rows)) = []) \<and>
   (load_body src = Inl e \<and> load_body src' = Inl e' \<longrightarrow> load_data src = load_data src')"
proof -
  have "load_data (Some (Table rows)) = []"
    if "TsUnparsable \<in> set (map raw_Timestamp rows) \<or> ScoreText \<in> set (map raw_VAE_Score rows)"
    using that load_body_bad_score [of rows] load_body_bad_timestamp [of rows]
    by (auto simp: load_data_def)
  then show ?thesis
    by (auto simp: load_data_def load_data_shown_error_def load_body_def)
qed

theorem load_data_catches_all_witness:
  "load_body (Some (Table [sample_row, bad_score_row])) = Inl CutTypeError \<and>
   load_body None = Inl FileNotFoundError \<and>
   ScoreText \<in> set (map raw_VAE_Score [sample_row, bad_score_row]) \<and>
   load_data (Some (Table [sample_row, bad_score_row])) = [] \<and>
   load_data_shown_error (Some (Table [sample_row, bad_score_row])) = Some CutTypeError \<and>
   load_data (Some (Table [sample_row, bad_score_row])) = load_data None"
proof -
  have b: "load_body (Some (Table [sample_row, bad_score_row])) = Inl CutTypeError"
    by (simp add: load_body_def sample_row_def bad_score_row_def)
  have n: "load_body None = Inl FileNotFoundError"
    by (simp add: load_body_def)
  have h: "ScoreText \<in> set (map raw_VAE_Score [sample_row, bad_score_row])"
    by (simp add: bad_score_row_def)
  show ?thesis
    using load_data_catches_all [of "Some (Table [sample_row, bad_score_row])" CutTypeError "[sample_row, bad_score_row]"
        None FileNotFoundError] b n h
    by blast
qed

text \<open>
  C3 (as amended). When a row has a score field that pandas leaves as text, \<open>load_data\<close>
  does not fail: the exception is caught, the error is shown on the page, and the empty
  frame is returned. A run whose cache entry has run out shows the "no data" state, and
  the cache then holds the empty frame in place of the frame loaded before. A file whose
  score fields are all read as numbers (a missing value among them) and whose timestamps
  all parse raises nothing: no error is shown and every row is loaded.
\<close>

theorem bad_score_gives_empty_frame:
  assumes "ScoreText \<in> set (map raw_VAE_Score rows)"
  shows "load_data (Some (Table rows)) = [] \<and>
     (load_data_shown_error (Some (Table rows)) = Some DatetimeError \<or>
      load_data_shown_error (Some (Table rows)) = Some CutTypeError) \<and>
     (expired now cache \<longrightarrow>
        main now (Some (Table rows)) F cache = (NoData, Some \<lparr>stored_at = now, cached = []\<rparr>)) \<and>
     (ScoreText \<notin> set (map raw_VAE_Score rows') \<and>
      TsUnparsable \<notin> set (map raw_Timestamp rows') \<longrightarrow>
        load_data_shown_error (Some (Table rows')) = None \<and>
        length (load_data (Some (Table rows'))) = length rows')"
proof -
  have l: "load_data (Some (Table rows)) = []"
    using load_body_bad_score [OF assms] by (auto simp: load_data_def)
  have e: "load_data_shown_error (Some (Table rows)) = Some DatetimeError \<or>
      load_data_shown_error (Some (Table rows)) = Some CutTypeError"
    using load_body_bad_score [OF assms] by (auto simp: load_data_shown_error_def)
  have ok: "load_data_shown_error (Some (Table rows')) = None \<and>
        length (load_data (Some (Table rows'))) = length rows'"
    if "ScoreText \<notin> set (map raw_VAE_Score rows')" "TsUnparsable \<notin> set (map raw_Timestamp rows')"
    using load_body_ok [OF that] by (auto simp: load_data_def load_data_shown_error_def)
  show ?thesis
    using l e ok main_expired by blast
qed

theorem bad_score_gives_empty_frame_witness:
  "ScoreText \<in> set (map raw_VAE_Score [sample_row, bad_score_row]) \<and>
   load_data (Some (Table [sample_row, bad_score_row])) = [] \<and>
   load_data_shown_error (Some (Table [sample_row, bad_score_row])) = Some CutTypeError \<and>
   expired 10 (Some \<lparr>stored_at = 0, cached = load_data (Some (Table [sample_row]))\<rparr>) \<and>
   main 10 (Some (Table [sample_row, bad_score_row])) scenario_filter
     (Some \<lparr>stored_at = 0, cached = load_data (Some (Table [sample_row]))\<rparr>)
     = (NoData, Some \<lparr>stored_at = 10, cached = []\<rparr>) \<and>
   ScoreText \<notin> set (map raw_VAE_Score [sample_row, null_score_row]) \<and>
   TsUnparsable \<notin> set (map raw_Timestamp [sample_row, null_score_row]) \<and>
   load_data_shown_error (Some (Table [sample_row, null_score_row])) = None \<and>
   length (load_data (Some (Table [sample_row, null_score_row]))) = 2"
proof -
  have h: "ScoreText \<in> set (map raw_VAE_Score [sample_row, bad_score_row])"
    by (simp add: bad_score_row_def)
  have x: "expired 10 (Some \<lparr>stored_at = 0, cached = load_data (Some (Table [sample_row]))\<rparr>)"
    by (simp add: expired_def REFRESH_INTERVAL_def)
  have s: "load_data_shown_error (Some (Table [sample_row, bad_score_row])) = Some CutTypeError"
    by (simp add: load_data_shown_error_def load_body_def sample_row_def bad_score_row_def)
  have n1: "ScoreText \<notin> set (map raw_VAE_Score [sample_row, null_score_row])"
    by (simp add: sample_row_def null_score_row_def)
  have n2: "TsUnparsable \<notin> set (map raw_Timestamp [sample_row, null_score_row])"
    by (simp add: sample_row_def null_score_row_def)
  have len: "length [sample_row, null_score_row] = 2"
    by simp
  show ?thesis
    using bad_score_gives_empty_frame [OF h, of 10 "Some \<lparr>stored_at = 0, cached = load_data (Some (Table [sample_row]))\<rparr>"
        scenario_filter "[sample_row, null_score_row]"] h x s n1 n2 len
    by metis
qed

text \<open>
  C3 as stated fails: after a run that published a frame of one event and its metrics,
  a run ten seconds later on a file with a score field left as text shows "no data" and
  leaves the empty frame in the cache; the frame and the metrics published before are
  gone.
\<close>

theorem failed_load_drops_snapshot_counterexample:
  "main 0 (Some (Table [sample_row])) scenario_filter None =
     (Dashboard
        \<lparr>total_alerts = 1, filtered_alerts = 1, avg_score = Fin 310.5807800292969,
         latest = Some \<lparr>Timestamp = Some 1744216197548820000, Sample_Index = 0,
           VAE_Score = Fin 310.5807800292969, GNN_Label = 1\<rparr>\<rparr>
        [\<lparr>Timestamp = Some 1744216197548820000, Sample_Index = 0,
          VAE_Score = Fin 310.5807800292969, GNN_Label = 1\<rparr>],
      Some \<lparr>stored_at = 0, cached = load_data (Some (Table [sample_row]))\<rparr>) \<and>
   main 10 (Some (Table [sample_row, bad_score_row])) scenario_filter
     (Some \<lparr>stored_at = 0, cached = load_data (Some (Table [sample_row]))\<rparr>)
     = (NoData, Some \<lparr>stored_at = 10, cached = []\<rparr>)"
proof -
  have bad: "load_data (Some (Table [sample_row, bad_score_row])) = []"
    by (simp add: load_data_def load_body_def sample_row_def bad_score_row_def)
  have x: "expired 10 (Some \<lparr>stored_at = 0, cached = load_data (Some (Table [sample_row]))\<rparr>)"
    by (simp add: expired_def REFRESH_INTERVAL_def)
  have "main 0 (Some (Table [sample_row])) scenario_filter None =
     (Dashboard
        \<lparr>total_alerts = 1, filtered_alerts = 1, avg_score = Fin 310.5807800292969,
         latest = Some \<lparr>Timestamp = Some 1744216197548820000, Sample_Index = 0,
           VAE_Score = Fin 310.5807800292969, GNN_Label = 1\<rparr>\<rparr>
        [\<lparr>Timestamp = Some 1744216197548820000, Sample_Index = 0,
          VAE_Score = Fin 310.5807800292969, GNN_Label = 1\<rparr>],
      Some \<lparr>stored_at = 0, cached = load_data (Some (Table [sample_row]))\<rparr>)"
    by (simp add: main_def cached_load_data_def sample_loads apply_filters_def scenario_filter_def
        classify_Fin summarize_exact series_mean_exact series_sum_def)
  then show ?thesis
    using main_expired [OF x bad] by simp
qed

end
